theory Spec2Isabelle
  imports Complex_Main "HOL-Library.Sublist" "HOL-Library.Word"
begin

section \<open>Go values shared by both packages\<close>

text \<open>
  A Go \<^verbatim>\<open>[]byte\<close> is a list of 8-bit words, a Go \<^verbatim>\<open>string\<close> a list of characters.
  A Go \<^verbatim>\<open>error\<close> is an interface value; the code tells two dynamic types apart:
  \<^verbatim>\<open>alexa.ValidationError{Message}\<close> and everything else (\<^verbatim>\<open>errors.New\<close>,
  \<^verbatim>\<open>fmt.Errorf\<close>, the errors of the standard library). \<open>Error\<close> is the method
  \<^verbatim>\<open>Error() string\<close>, which \<^verbatim>\<open>%v\<close> prints.
\<close>

type_synonym bytes = "8 word list"

datatype error = ValidationError string | GenericError string

fun Error :: "error \<Rightarrow> string" where
  "Error (ValidationError m) = m"
| "Error (GenericError m) = m"

text \<open>
  A call either returns or panics. The two run-time panics the code can raise are a
  field read through a nil pointer and a failed single-value type assertion.
\<close>

datatype panic = NilDereference | TypeAssertionFailed

datatype 'a outcome = Returned 'a | Panic panic

subsection \<open>time.Time and time.Duration\<close>

text \<open>
  An instant is its count of nanoseconds since the Unix epoch (Go keeps seconds and
  nanoseconds; every Go instant is such a count). \<^verbatim>\<open>t.Unix()\<close> is the count of
  whole seconds, rounded down. A \<^verbatim>\<open>Duration\<close> is an int64 count of nanoseconds and
  \<^verbatim>\<open>t.Sub(u)\<close> saturates at its least and greatest value. \<^verbatim>\<open>d.Seconds()\<close> is
  the duration in seconds as a float64; it is taken here as the exact quotient (for
  the comparison with 150 the float64 rounding changes nothing: 150 and every
  whole number of seconds are exact, and the nearest float64 values around 150 are
  less than a nanosecond apart).
\<close>

type_synonym time = int

type_synonym Duration = int

definition Unix :: "time \<Rightarrow> int" where
  "Unix t = t div 1000000000"

definition minDuration :: Duration where
  "minDuration = - (2 ^ 63)"

definition maxDuration :: Duration where
  "maxDuration = 2 ^ 63 - 1"

definition time_Sub :: "time \<Rightarrow> time \<Rightarrow> Duration" where
  "time_Sub t u =
     (let d = t - u in
      if d < minDuration then minDuration
      else if d > maxDuration then maxDuration
      else d)"

definition Duration_Seconds :: "Duration \<Rightarrow> real" where
  "Duration_Seconds d = real_of_int d / 1000000000"

subsection \<open>net/url, crypto/x509, crypto/rsa\<close>

text \<open>The three fields of \<^verbatim>\<open>url.URL\<close> that the code reads.\<close>

record URL =
  Scheme :: string
  Host :: string
  Path :: string

text \<open>
  \<^verbatim>\<open>pkix.AttributeTypeAndValue\<close>: an object identifier and a value of type
  \<^verbatim>\<open>interface{}\<close>. The code compares the value with a string constant, which holds
  only for a value whose dynamic type is string.
\<close>

datatype AttributeValue = StringValue string | OtherValue

record AttributeTypeAndValue =
  AttributeType :: "nat list"
  Value :: AttributeValue

record rsa_PublicKey =
  rsa_N :: int
  rsa_E :: int

text \<open>
  The dynamic type of \<^verbatim>\<open>cert.PublicKey\<close> (an \<^verbatim>\<open>interface{}\<close>): a pointer to an
  RSA key, a key of another algorithm that x509 parses, or nil for an algorithm it
  does not know.
\<close>

datatype public_key =
    RSAPublicKey rsa_PublicKey
  | DSAPublicKey
  | ECDSAPublicKey
  | Ed25519PublicKey
  | NoPublicKey

text \<open>The fields of \<^verbatim>\<open>x509.Certificate\<close> that the code reads; \<open>Subject_Names\<close> is
  \<^verbatim>\<open>cert.Subject.Names\<close>.\<close>

record Certificate =
  NotBefore :: time
  NotAfter :: time
  Subject_Names :: "AttributeTypeAndValue list"
  PublicKey :: public_key

subsection \<open>The standard library, as a parameter\<close>

text \<open>
  The functions of Go's standard library that the code calls are not code of this
  repository: every definition below takes them as a record \<open>lib\<close>, and a theorem
  stated for \<open>lib\<close> holds for any such record.
  \<^item> \<open>url_Parse\<close>: \<^verbatim>\<open>url.Parse\<close>; \<open>None\<close> when it returns an error (its
    \<^verbatim>\<open>*URL\<close> result is then nil).
  \<^item> \<open>pem_Decode\<close>: \<^verbatim>\<open>pem.Decode\<close>, the \<^verbatim>\<open>Bytes\<close> of the first block;
    \<open>None\<close> when the block is nil.
  \<^item> \<open>x509_ParseCertificate\<close>: \<^verbatim>\<open>x509.ParseCertificate\<close>.
  \<^item> \<open>base64_DecodeString\<close>: \<^verbatim>\<open>base64.StdEncoding.DecodeString\<close>, the bytes it
    returns (the code drops its error).
  \<^item> \<open>sha1_Sum\<close>: the SHA-1 digest of the bytes written to \<^verbatim>\<open>sha1.New()\<close>.
  \<^item> \<open>rsa_VerifyPKCS1v15\<close>: \<^verbatim>\<open>rsa.VerifyPKCS1v15(key, crypto.SHA1, digest, sig)\<close>;
    \<open>True\<close> when it returns nil.
  \<^item> \<open>time_Parse\<close>: \<^verbatim>\<open>time.Parse(time.RFC3339, s)\<close>.
  \<^item> \<open>Sprint_time\<close>, \<open>Sprint_f\<close>: what \<^verbatim>\<open>fmt.Sprintf\<close> prints for a
    \<^verbatim>\<open>time.Time\<close> under \<^verbatim>\<open>%s\<close> and for a float64 under \<^verbatim>\<open>%f\<close>.
\<close>

record golib =
  url_Parse :: "string \<Rightarrow> URL option"
  pem_Decode :: "bytes \<Rightarrow> bytes option"
  x509_ParseCertificate :: "bytes \<Rightarrow> error + Certificate"
  base64_DecodeString :: "string \<Rightarrow> bytes"
  sha1_Sum :: "bytes \<Rightarrow> bytes"
  rsa_VerifyPKCS1v15 :: "rsa_PublicKey \<Rightarrow> bytes \<Rightarrow> bytes \<Rightarrow> bool"
  time_Parse :: "string \<Rightarrow> error + time"
  Sprint_time :: "time \<Rightarrow> string"
  Sprint_f :: "real \<Rightarrow> string"

section \<open>Package alexa: the request envelope\<close>

typedecl json_value

record Permissions =
  ConsentToken :: string

record User =
  UserID :: string
  AccessToken :: string
  Permissions :: Permissions

record RequestApplication =
  ApplicationID :: string

record Session =
  New :: bool
  SessionID :: string
  Attributes_String :: "string \<rightharpoonup> json_value"
  User :: User
  Application :: RequestApplication

record IntentSlot =
  Slot_Name :: string
  Slot_Value :: string

record Intent =
  Name :: string
  Slots :: "string \<rightharpoonup> IntentSlot"

record Request =
  Type :: string
  RequestID :: string
  Timestamp :: string
  Intent :: Intent
  Locale :: string
  Token :: string
  OffsetInMilliseconds :: "64 word"

text \<open>
  \<^verbatim>\<open>RequestEnvelope\<close> holds three pointers, each of which may be nil (\<open>None\<close>):
  \<^verbatim>\<open>json.Unmarshal\<close> leaves a pointer nil when the key is absent or null. The
  fields of \<^verbatim>\<open>Context\<close> are read by none of the functions below. The pointer to the
  envelope itself and the receivers of the methods are taken to be non-nil, as they
  are at every call in the repository.
\<close>

typedecl Context

record RequestEnvelope =
  Version :: string
  Session :: "Session option"
  Request :: "Request option"
  Context :: "Context option"

section \<open>Package alexa: the strict verification layer\<close>

text \<open>\<^verbatim>\<open>validateApplicationID\<close>; \<open>Returned None\<close> is the nil error.\<close>

definition validateApplicationID :: "RequestEnvelope \<Rightarrow> string \<Rightarrow> error option outcome" where
  "validateApplicationID r applicationID =
     (case Session r of
        None \<Rightarrow> Panic NilDereference
      | Some s \<Rightarrow>
          (let reqAppID = ApplicationID (Application s) in
           if reqAppID = [] then
             Returned (Some (ValidationError ''request applicationID missing''))
           else if reqAppID \<noteq> applicationID then
             Returned (Some (ValidationError (''request applicationID mismatch: '' @ reqAppID)))
           else Returned None))"

text \<open>\<^verbatim>\<open>validateTimestamp\<close>.\<close>

definition validateTimestamp ::
  "golib \<Rightarrow> RequestEnvelope \<Rightarrow> time \<Rightarrow> real \<Rightarrow> error option outcome" where
  "validateTimestamp lib r now maxDiffSeconds =
     (case Request r of
        None \<Rightarrow> Panic NilDereference
      | Some rq \<Rightarrow>
          (case time_Parse lib (Timestamp rq) of
             Inl err \<Rightarrow>
               Returned (Some (ValidationError
                 (''invalid timestamp '' @ Timestamp rq @ '': '' @ Error err)))
           | Inr timestamp \<Rightarrow>
               (let diff = Duration_Seconds (time_Sub now timestamp) in
                if \<bar>diff\<bar> > maxDiffSeconds then
                  Returned (Some (ValidationError
                    (''timestamp '' @ Sprint_time lib timestamp @ '' difference of ''
                       @ Sprint_f lib diff @ ''s exceeds '' @ Sprint_f lib maxDiffSeconds @ ''s'')))
                else Returned None)))"

text \<open>
  \<^verbatim>\<open>App\<close> and \<^verbatim>\<open>StrictVerificationApp\<close>. The two handlers of an \<^verbatim>\<open>App\<close> are
  interface values supplied by the integrator.
\<close>

record ('sh, 'ah) App =
  App_ApplicationID :: string
  SessionHandler :: 'sh
  AudioHandler :: 'ah

record ('sh, 'ah) StrictVerificationApp =
  App :: "('sh, 'ah) App"

text \<open>
  \<^verbatim>\<open>StrictVerificationApp.Handle\<close>. Its result is the list of the calls it made to the
  wrapped \<^verbatim>\<open>App.Handle\<close> (the context and the envelope of each) and how it ended:
  with the pair \<^verbatim>\<open>(*ResponseEnvelope, error)\<close> or with a panic. \<open>App_Handle\<close> is
  the method \<^verbatim>\<open>App.Handle\<close> of the wrapped value, which dispatches to the
  integrator's handlers; \<open>now\<close> is what \<^verbatim>\<open>time.Now()\<close> returns.
\<close>

type_synonym 'resp handle_result = "('resp option \<times> error option) outcome"

definition StrictVerificationApp_Handle ::
  "golib \<Rightarrow> (('sh, 'ah) App \<Rightarrow> 'ctx \<Rightarrow> RequestEnvelope \<Rightarrow> 'resp handle_result) \<Rightarrow> time
     \<Rightarrow> ('sh, 'ah) StrictVerificationApp \<Rightarrow> 'ctx \<Rightarrow> RequestEnvelope
     \<Rightarrow> ('ctx \<times> RequestEnvelope) list \<times> 'resp handle_result" where
  "StrictVerificationApp_Handle lib App_Handle now s ctx r =
     (case validateApplicationID r (App_ApplicationID (App s)) of
        Panic p \<Rightarrow> ([], Panic p)
      | Returned (Some err) \<Rightarrow> ([], Returned (None, Some err))
      | Returned None \<Rightarrow>
          (case validateTimestamp lib r now 150 of
             Panic p \<Rightarrow> ([], Panic p)
           | Returned (Some err) \<Rightarrow> ([], Returned (None, Some err))
           | Returned None \<Rightarrow> ([(ctx, r)], App_Handle (App s) ctx r)))"

section \<open>Package server: certificate and signature validation\<close>

text \<open>
  The parts of \<^verbatim>\<open>http.Request\<close> that the code reads: the headers (\<^verbatim>\<open>Header.Get\<close>
  gives the empty string for an absent header), the context, and the body, a stream
  that delivers \<open>stream_data\<close> and then ends, with end-of-file or with the read error
  \<open>stream_err\<close>.
\<close>

record body_stream =
  stream_data :: bytes
  stream_err :: "error option"

record 'ctx http_Request =
  Header :: "string \<rightharpoonup> string"
  Body :: body_stream
  Ctx :: 'ctx

definition Header_Get :: "(string \<rightharpoonup> string) \<Rightarrow> string \<Rightarrow> string" where
  "Header_Get h k = (case h k of None \<Rightarrow> [] | Some v \<Rightarrow> v)"

text \<open>\<^verbatim>\<open>verifyCertURL\<close>. The error of \<^verbatim>\<open>url.Parse\<close> is dropped and \<^verbatim>\<open>link\<close> is
  read at once: a nil \<^verbatim>\<open>link\<close> panics at \<^verbatim>\<open>link.Scheme\<close>.\<close>

definition verifyCertURL :: "golib \<Rightarrow> string \<Rightarrow> error option outcome" where
  "verifyCertURL lib path =
     (case url_Parse lib path of
        None \<Rightarrow> Panic NilDereference
      | Some link \<Rightarrow>
          if Scheme link \<noteq> ''https'' then
            Returned (Some (GenericError ''cert url not https''))
          else if Host link \<noteq> ''s3.amazonaws.com'' \<and> Host link \<noteq> ''s3.amazonaws.com:443'' then
            Returned (Some (GenericError ''cert not on s3''))
          else if \<not> prefix ''/echo.api/'' (Path link) then
            Returned (Some (GenericError ''not an echo cert''))
          else Returned None)"

text \<open>The loop of \<^verbatim>\<open>readValidateCertificate\<close> over \<^verbatim>\<open>cert.Subject.Names\<close>, with its
  flag \<^verbatim>\<open>foundName\<close> as the accumulator.\<close>

fun foundName_loop :: "bool \<Rightarrow> AttributeTypeAndValue list \<Rightarrow> bool" where
  "foundName_loop foundName [] = foundName"
| "foundName_loop foundName (altName # rest) =
     foundName_loop
       (if Value altName = StringValue ''echo-api.amazon.com'' then True else foundName) rest"

text \<open>\<^verbatim>\<open>readValidateCertificate\<close>; \<open>Inl err\<close> is the return \<^verbatim>\<open>(nil, err)\<close>, \<open>Inr cert\<close>
  the return \<^verbatim>\<open>(cert, nil)\<close>. \<open>certReader\<close> is the injected \<^verbatim>\<open>CertReader\<close>.\<close>

definition readValidateCertificate ::
  "golib \<Rightarrow> 'ctx http_Request \<Rightarrow> ('ctx \<Rightarrow> string \<Rightarrow> error + bytes) \<Rightarrow> time
     \<Rightarrow> (error + Certificate) outcome" where
  "readValidateCertificate lib r certReader now =
     (let certURL = Header_Get (Header r) ''SignatureCertChainUrl'' in
      case verifyCertURL lib certURL of
        Panic p \<Rightarrow> Panic p
      | Returned (Some err) \<Rightarrow> Returned (Inl err)
      | Returned None \<Rightarrow>
          (case certReader (Ctx r) certURL of
             Inl err \<Rightarrow>
               Returned (Inl (GenericError
                 (''failed to read cert at '' @ certURL @ '': '' @ Error err)))
           | Inr certContents \<Rightarrow>
               (case pem_Decode lib certContents of
                  None \<Rightarrow> Returned (Inl (GenericError ''failed to parse certificate PEM''))
                | Some block \<Rightarrow>
                    (case x509_ParseCertificate lib block of
                       Inl err \<Rightarrow> Returned (Inl err)
                     | Inr cert \<Rightarrow>
                         if Unix now < Unix (NotBefore cert) \<or> Unix now > Unix (NotAfter cert) then
                           Returned (Inl (GenericError ''certificate expired''))
                         else if \<not> foundName_loop False (Subject_Names cert) then
                           Returned (Inl (GenericError ''certification invalid''))
                         else Returned (Inr cert)))))"

text \<open>
  \<^verbatim>\<open>readValidateBody\<close>; \<open>cert\<close> is the pointer it is given, \<open>None\<close> when nil.
  \<^verbatim>\<open>io.Copy\<close> through the \<^verbatim>\<open>TeeReader\<close> writes every byte the body delivers both to
  the hash and to \<^verbatim>\<open>bodyBuf\<close>; \<open>Inr\<close> holds the contents of the buffer returned as
  the reader.
\<close>

definition readValidateBody ::
  "golib \<Rightarrow> 'ctx http_Request \<Rightarrow> Certificate option \<Rightarrow> (error + bytes) outcome" where
  "readValidateBody lib r cert =
     (case cert of
        None \<Rightarrow> Panic NilDereference
      | Some c \<Rightarrow>
          (let publicKey = PublicKey c;
               encryptedSig = base64_DecodeString lib (Header_Get (Header r) ''Signature'');
               bodyBuf = stream_data (Body r)
           in case stream_err (Body r) of
                Some err \<Rightarrow> Returned (Inl err)
              | None \<Rightarrow>
                  (case publicKey of
                     RSAPublicKey key \<Rightarrow>
                       if rsa_VerifyPKCS1v15 lib key (sha1_Sum lib bodyBuf) encryptedSig then
                         Returned (Inr bodyBuf)
                       else Returned (Inl (GenericError ''signature match failed''))
                   | _ \<Rightarrow> Panic TypeAssertionFailed)))"

text \<open>
  The handler that \<^verbatim>\<open>NewValidatingHandler\<close> returns, run on one request. Its result is
  what it did, in order, and how it ended. \<open>HttpError msg code\<close> is the call
  \<^verbatim>\<open>http.Error(w, msg, code)\<close>; \<open>ServeHTTP body\<close> is the call
  \<^verbatim>\<open>alexaHandler.ServeHTTP(w, r)\<close> of the wrapped handler, with the reader that
  \<^verbatim>\<open>r.Body\<close> was set to (\<open>None\<close>: the nil reader). Neither \<^verbatim>\<open>if\<close> returns, so the
  handler goes on after each \<^verbatim>\<open>http.Error\<close>.
\<close>

datatype event = HttpError string nat | ServeHTTP "bytes option"

definition StatusUnauthorized :: nat where
  "StatusUnauthorized = 401"

definition NewValidatingHandler ::
  "golib \<Rightarrow> ('ctx \<Rightarrow> string \<Rightarrow> error + bytes) \<Rightarrow> time \<Rightarrow> 'ctx http_Request
     \<Rightarrow> event list \<times> unit outcome" where
  "NewValidatingHandler lib certReader now r =
     (case readValidateCertificate lib r certReader now of
        Panic p \<Rightarrow> ([], Panic p)
      | Returned cres \<Rightarrow>
          (let cert = (case cres of Inl err \<Rightarrow> None | Inr c \<Rightarrow> Some c);
               ev1 = (case cres of
                        Inl err \<Rightarrow>
                          [HttpError (''Certificate validation failed: '' @ Error err)
                             StatusUnauthorized]
                      | Inr c \<Rightarrow> [])
           in case readValidateBody lib r cert of
                Panic p \<Rightarrow> (ev1, Panic p)
              | Returned bres \<Rightarrow>
                  (let body = (case bres of Inl err \<Rightarrow> None | Inr b \<Rightarrow> Some b);
                       ev2 = (case bres of
                                Inl err \<Rightarrow>
                                  [HttpError (''Signature validation failed: '' @ Error err)
                                     StatusUnauthorized]
                              | Inr b \<Rightarrow> [])
                   in (ev1 @ ev2 @ [ServeHTTP body], Returned ()))))"

section \<open>Sample inputs\<close>

text \<open>
  Concrete values at which the definitions are evaluated below. \<open>sample_lib\<close> stands in
  for the standard library: \<open>sample_url_Parse\<close> gives what \<^verbatim>\<open>url.Parse\<close> gives on the
  strings it lists (an error on \<^verbatim>\<open>https://s3.amazonaws.com/echo.api/%zz\<close>, whose
  path holds an invalid escape) and knows no other string; PEM and DER decoding know
  one certificate; \<open>time_Parse\<close> knows one RFC 3339 timestamp, 1500000000 seconds after
  the epoch, and the two print functions the values printed below; the digest is the
  identity and a signature verifies when it equals the digest, so that \<^verbatim>\<open>aGk=\<close>
  (the bytes 104, 105) signs the body 104, 105 and \<^verbatim>\<open>aGo=\<close> does not.
\<close>

definition sample_Session :: "string \<Rightarrow> Session" where
  "sample_Session appID =
     \<lparr>New = False, SessionID = ''session-1'', Attributes_String = Map.empty,
      User = \<lparr>UserID = ''user-1'', AccessToken = [], Permissions = \<lparr>ConsentToken = []\<rparr>\<rparr>,
      Application = \<lparr>ApplicationID = appID\<rparr>\<rparr>"

definition sample_Request :: "string \<Rightarrow> Request" where
  "sample_Request ts =
     \<lparr>Type = ''LaunchRequest'', RequestID = ''request-1'', Timestamp = ts,
      Intent = \<lparr>Name = [], Slots = Map.empty\<rparr>, Locale = ''en-US'', Token = [],
      OffsetInMilliseconds = 0\<rparr>"

definition sample_envelope :: "string \<Rightarrow> string \<Rightarrow> RequestEnvelope" where
  "sample_envelope appID ts =
     \<lparr>Version = ''1.0'', Session = Some (sample_Session appID),
      Request = Some (sample_Request ts), Context = None\<rparr>"

definition sample_url_Parse :: "string \<Rightarrow> URL option" where
  "sample_url_Parse s =
     (if s = ''https://s3.amazonaws.com/echo.api/echo-api-cert.pem'' then
        Some \<lparr>Scheme = ''https'', Host = ''s3.amazonaws.com'', Path = ''/echo.api/echo-api-cert.pem''\<rparr>
      else if s = ''https://s3.amazonaws.com:443/echo.api/echo-api-cert.pem'' then
        Some \<lparr>Scheme = ''https'', Host = ''s3.amazonaws.com:443'', Path = ''/echo.api/echo-api-cert.pem''\<rparr>
      else if s = ''http://s3.amazonaws.com/echo.api/echo-api-cert.pem'' then
        Some \<lparr>Scheme = ''http'', Host = ''s3.amazonaws.com'', Path = ''/echo.api/echo-api-cert.pem''\<rparr>
      else if s = ''https://example.com/echo.api/echo-api-cert.pem'' then
        Some \<lparr>Scheme = ''https'', Host = ''example.com'', Path = ''/echo.api/echo-api-cert.pem''\<rparr>
      else if s = ''https://s3.amazonaws.com/other/echo-api-cert.pem'' then
        Some \<lparr>Scheme = ''https'', Host = ''s3.amazonaws.com'', Path = ''/other/echo-api-cert.pem''\<rparr>
      else if s = [] then
        Some \<lparr>Scheme = [], Host = [], Path = []\<rparr>
      else if s = ''https://s3.amazonaws.com/echo.api/%zz'' then None
      else None)"

definition sample_rsa_key :: rsa_PublicKey where
  "sample_rsa_key = \<lparr>rsa_N = 3233, rsa_E = 17\<rparr>"

definition sample_Certificate :: Certificate where
  "sample_Certificate =
     \<lparr>NotBefore = 1500000000000000000, NotAfter = 1530000000000000000,
      Subject_Names =
        [\<lparr>AttributeType = [2, 5, 4, 6], Value = StringValue ''US''\<rparr>,
         \<lparr>AttributeType = [2, 5, 4, 10], Value = StringValue ''Amazon.com, Inc.''\<rparr>,
         \<lparr>AttributeType = [2, 5, 4, 3], Value = StringValue ''echo-api.amazon.com''\<rparr>],
      PublicKey = RSAPublicKey sample_rsa_key\<rparr>"

definition sample_pem :: bytes where
  "sample_pem = [45, 45, 45, 45, 45, 66, 69, 71, 73, 78]"

definition sample_der :: bytes where
  "sample_der = [48, 130, 3, 10]"

definition sample_lib :: golib where
  "sample_lib =
     \<lparr>url_Parse = sample_url_Parse,
      pem_Decode = (\<lambda>b. if b = sample_pem then Some sample_der else None),
      x509_ParseCertificate =
        (\<lambda>b. if b = sample_der then Inr sample_Certificate
              else Inl (GenericError ''x509: malformed certificate'')),
      base64_DecodeString =
        (\<lambda>s. if s = ''aGk='' then [104, 105] else if s = ''aGo='' then [104, 106] else []),
      sha1_Sum = (\<lambda>b. b),
      rsa_VerifyPKCS1v15 = (\<lambda>key digest sig. sig = digest),
      time_Parse =
        (\<lambda>s. if s = ''2017-07-14T02:40:00Z'' then Inr 1500000000000000000
              else Inl (GenericError (''parsing time '' @ s))),
      Sprint_time =
        (\<lambda>t. if t = 1500000000000000000 then ''2017-07-14 02:40:00 +0000 UTC'' else ''?''),
      Sprint_f =
        (\<lambda>x. if x = 150 then ''150.000000'' else if x = 151 then ''151.000000''
              else if x = - 151 then ''-151.000000'' else ''?'')\<rparr>"

definition sample_certReader :: "unit \<Rightarrow> string \<Rightarrow> error + bytes" where
  "sample_certReader ctx url = Inr sample_pem"

definition sample_http_Request :: "string \<Rightarrow> string \<Rightarrow> bytes \<Rightarrow> unit http_Request" where
  "sample_http_Request certURL signature body =
     \<lparr>Header = [''SignatureCertChainUrl'' \<mapsto> certURL, ''Signature'' \<mapsto> signature],
      Body = \<lparr>stream_data = body, stream_err = None\<rparr>, Ctx = ()\<rparr>"

definition sample_now :: time where
  "sample_now = 1500000100000000000"

definition sample_certURL :: string where
  "sample_certURL = ''https://s3.amazonaws.com/echo.api/echo-api-cert.pem''"


definition ecdsa_Certificate :: Certificate where
  "ecdsa_Certificate = sample_Certificate\<lparr>PublicKey := ECDSAPublicKey\<rparr>"

text \<open>An envelope without a session, as sent for an AudioPlayer request; an application
  and a stand-in for its \<^verbatim>\<open>Handle\<close>.\<close>

definition sample_audio_envelope :: RequestEnvelope where
  "sample_audio_envelope =
     \<lparr>Version = ''1.0'', Session = None,
      Request = Some ((sample_Request ''2017-07-14T02:40:00Z'')\<lparr>Type := ''AudioPlayer.PlaybackStarted''\<rparr>),
      Context = None\<rparr>"

definition sample_App :: "(unit, unit) App" where
  "sample_App = \<lparr>App_ApplicationID = ''amzn1.ask.skill.1'', SessionHandler = (), AudioHandler = ()\<rparr>"

definition sample_App_Handle :: "(unit, unit) App \<Rightarrow> unit \<Rightarrow> RequestEnvelope \<Rightarrow> string handle_result" where
  "sample_App_Handle a ctx r = Returned (Some (''response to '' @ (case Request r of None \<Rightarrow> [] | Some rq \<Rightarrow> RequestID rq)), None)"

section \<open>The trust-origin validator\<close>

text \<open>
  On a URL that \<^verbatim>\<open>url.Parse\<close> parses, \<^verbatim>\<open>verifyCertURL\<close> checks the scheme, then the
  host, then the path, and returns the error of the first rule that fails; it returns
  nil exactly when the URL parses and passes the three rules.
\<close>

lemma verifyCertURL_parsed:
  "url_Parse lib path = Some link \<Longrightarrow>
   verifyCertURL lib path =
     Returned
       (if Scheme link \<noteq> ''https'' then Some (GenericError ''cert url not https'')
        else if Host link \<noteq> ''s3.amazonaws.com'' \<and> Host link \<noteq> ''s3.amazonaws.com:443'' then
          Some (GenericError ''cert not on s3'')
        else if \<not> prefix ''/echo.api/'' (Path link) then Some (GenericError ''not an echo cert'')
        else None)"
  by (simp add: verifyCertURL_def)

lemma verifyCertURL_accepts_iff:
  "(verifyCertURL lib path = Returned None) =
     (\<exists>link. url_Parse lib path = Some link \<and> Scheme link = ''https'' \<and>
        (Host link = ''s3.amazonaws.com'' \<or> Host link = ''s3.amazonaws.com:443'') \<and>
        prefix ''/echo.api/'' (Path link))"
  by (auto simp: verifyCertURL_def split: option.splits)

lemma verifyCertURL_sample:
  "verifyCertURL sample_lib ''https://s3.amazonaws.com/echo.api/echo-api-cert.pem'' = Returned None"
  "verifyCertURL sample_lib ''https://s3.amazonaws.com:443/echo.api/echo-api-cert.pem'' = Returned None"
  "verifyCertURL sample_lib ''http://s3.amazonaws.com/echo.api/echo-api-cert.pem''
     = Returned (Some (GenericError ''cert url not https''))"
  "verifyCertURL sample_lib ''https://example.com/echo.api/echo-api-cert.pem''
     = Returned (Some (GenericError ''cert not on s3''))"
  "verifyCertURL sample_lib ''https://s3.amazonaws.com/other/echo-api-cert.pem''
     = Returned (Some (GenericError ''not an echo cert''))"
  "verifyCertURL sample_lib [] = Returned (Some (GenericError ''cert url not https''))"
  by (simp_all add: verifyCertURL_def sample_lib_def sample_url_Parse_def)

text \<open>
  C3. The validator is not total on URL strings: on every string that \<^verbatim>\<open>url.Parse\<close>
  rejects, \<^verbatim>\<open>verifyCertURL\<close> reads \<^verbatim>\<open>link.Scheme\<close> through the nil \<^verbatim>\<open>link\<close> and
  panics; it neither accepts the URL nor returns the error of a rule. One such string
  is \<^verbatim>\<open>https://s3.amazonaws.com/echo.api/%zz\<close> (an invalid escape in the path), whose
  scheme is https, whose host is the trusted host and whose path begins with the
  trusted prefix.
\<close>

theorem verifyCertURL_parse_error:
  "url_Parse lib path = None \<Longrightarrow> verifyCertURL lib path = Panic NilDereference"
  by (simp add: verifyCertURL_def)

theorem verifyCertURL_unparsed_panics:
  "url_Parse sample_lib ''https://s3.amazonaws.com/echo.api/%zz'' = None \<and>
   verifyCertURL sample_lib ''https://s3.amazonaws.com/echo.api/%zz'' = Panic NilDereference"
proof -
  have "url_Parse sample_lib ''https://s3.amazonaws.com/echo.api/%zz'' = None"
    by (simp add: sample_lib_def sample_url_Parse_def)
  then show ?thesis
    using verifyCertURL_parse_error [of sample_lib "''https://s3.amazonaws.com/echo.api/%zz''"]
    by simp
qed

section \<open>The certificate authenticator\<close>


lemma readValidateCertificate_parsed:
  assumes "verifyCertURL lib (Header_Get (Header r) ''SignatureCertChainUrl'') = Returned None"
    and "certReader (Ctx r) (Header_Get (Header r) ''SignatureCertChainUrl'') = Inr certContents"
    and "pem_Decode lib certContents = Some block"
    and "x509_ParseCertificate lib block = Inr cert"
  shows "readValidateCertificate lib r certReader now =
     (if Unix now < Unix (NotBefore cert) \<or> Unix now > Unix (NotAfter cert) then
        Returned (Inl (GenericError ''certificate expired''))
      else if \<not> foundName_loop False (Subject_Names cert) then
        Returned (Inl (GenericError ''certification invalid''))
      else Returned (Inr cert))"
  using assms by (simp add: readValidateCertificate_def Let_def)

lemma Unix_mono: "t \<le> u \<Longrightarrow> Unix t \<le> Unix u"
  by (simp add: Unix_def zdiv_mono1)

lemma sample_reach:
  "verifyCertURL sample_lib (Header_Get (Header (sample_http_Request sample_certURL sg b)) ''SignatureCertChainUrl'') = Returned None"
  "sample_certReader (Ctx (sample_http_Request sample_certURL sg b))
     (Header_Get (Header (sample_http_Request sample_certURL sg b)) ''SignatureCertChainUrl'') = Inr sample_pem"
  "pem_Decode sample_lib sample_pem = Some sample_der"
  "x509_ParseCertificate sample_lib sample_der = Inr sample_Certificate"
  by (simp_all add: verifyCertURL_def sample_lib_def sample_url_Parse_def sample_http_Request_def
      sample_certURL_def Header_Get_def sample_certReader_def)


text \<open>
  C4, as the code has it. For a certificate that was fetched, decoded and parsed, the
  temporal check compares whole Unix seconds: \<^verbatim>\<open>readValidateCertificate\<close> returns the
  error \<^verbatim>\<open>certificate expired\<close> exactly when the Unix second of the current time is
  before that of not-before or after that of not-after, the same message in both
  cases. A current time within [not-before, not-after] is therefore never rejected
  as expired.
\<close>

theorem readValidateCertificate_temporal:
  assumes "verifyCertURL lib (Header_Get (Header r) ''SignatureCertChainUrl'') = Returned None"
    and "certReader (Ctx r) (Header_Get (Header r) ''SignatureCertChainUrl'') = Inr certContents"
    and "pem_Decode lib certContents = Some block"
    and "x509_ParseCertificate lib block = Inr cert"
  shows "((readValidateCertificate lib r certReader now
            = Returned (Inl (GenericError ''certificate expired'')))
          = (\<not> (Unix (NotBefore cert) \<le> Unix now \<and> Unix now \<le> Unix (NotAfter cert))))
       \<and> (NotBefore cert \<le> now \<and> now \<le> NotAfter cert \<longrightarrow>
            readValidateCertificate lib r certReader now
              \<noteq> Returned (Inl (GenericError ''certificate expired'')))"
proof -
  have iff: "(readValidateCertificate lib r certReader now
            = Returned (Inl (GenericError ''certificate expired'')))
          = (\<not> (Unix (NotBefore cert) \<le> Unix now \<and> Unix now \<le> Unix (NotAfter cert)))"
    by (auto simp: readValidateCertificate_parsed [of lib r certReader certContents block cert, OF assms])
  moreover have "NotBefore cert \<le> now \<and> now \<le> NotAfter cert \<longrightarrow>
            readValidateCertificate lib r certReader now
              \<noteq> Returned (Inl (GenericError ''certificate expired''))"
    unfolding iff by (simp add: Unix_mono)
  ultimately show ?thesis by blast
qed

theorem readValidateCertificate_temporal_witness:
  "readValidateCertificate sample_lib (sample_http_Request sample_certURL ''aGk='' [104, 105])
     sample_certReader 1530000001000000000 = Returned (Inl (GenericError ''certificate expired''))
   \<and> readValidateCertificate sample_lib (sample_http_Request sample_certURL ''aGk='' [104, 105])
     sample_certReader 1499999999999999999 = Returned (Inl (GenericError ''certificate expired''))
   \<and> readValidateCertificate sample_lib (sample_http_Request sample_certURL ''aGk='' [104, 105])
     sample_certReader 1530000000000000000 \<noteq> Returned (Inl (GenericError ''certificate expired''))
   \<and> readValidateCertificate sample_lib (sample_http_Request sample_certURL ''aGk='' [104, 105])
     sample_certReader 1500000000000000000 \<noteq> Returned (Inl (GenericError ''certificate expired''))"
  using readValidateCertificate_temporal
      [of sample_lib "sample_http_Request sample_certURL ''aGk='' [104, 105]"
         sample_certReader sample_pem sample_der sample_Certificate 1530000001000000000, OF sample_reach]
    readValidateCertificate_temporal
      [of sample_lib "sample_http_Request sample_certURL ''aGk='' [104, 105]"
         sample_certReader sample_pem sample_der sample_Certificate 1499999999999999999, OF sample_reach]
    readValidateCertificate_temporal
      [of sample_lib "sample_http_Request sample_certURL ''aGk='' [104, 105]"
         sample_certReader sample_pem sample_der sample_Certificate 1530000000000000000, OF sample_reach]
    readValidateCertificate_temporal
      [of sample_lib "sample_http_Request sample_certURL ''aGk='' [104, 105]"
         sample_certReader sample_pem sample_der sample_Certificate 1500000000000000000, OF sample_reach]
  by (simp add: Unix_def sample_Certificate_def)

text \<open>
  The converse of the last part fails: half a second after not-after, the current
  time is outside [not-before, not-after] and in the same Unix second as not-after,
  and the certificate is accepted.
\<close>

theorem readValidateCertificate_expiry_counterexample:
  "readValidateCertificate sample_lib (sample_http_Request sample_certURL ''aGk='' [104, 105])
     sample_certReader 1530000000500000000 = Returned (Inr sample_Certificate)
   \<and> NotAfter sample_Certificate = 1530000000000000000
   \<and> \<not> (NotBefore sample_Certificate \<le> 1530000000500000000 \<and>
         1530000000500000000 \<le> NotAfter sample_Certificate)"
  by (simp add: readValidateCertificate_parsed [of sample_lib _ sample_certReader, OF sample_reach] Unix_def)
    (simp add: sample_Certificate_def)



section \<open>The signature verifier\<close>

text \<open>
  \<^verbatim>\<open>readValidateBody\<close> on each kind of input: a nil certificate, a body whose read
  fails, an RSA key (the result then follows \<^verbatim>\<open>rsa.VerifyPKCS1v15\<close> on the SHA-1
  digest of the bytes read and the decoded signature header, and the reader returned
  holds exactly the bytes read), and a key of any other type.
\<close>

lemma readValidateBody_nil_cert:
  "readValidateBody lib r None = Panic NilDereference"
  by (simp add: readValidateBody_def)

lemma readValidateBody_read_error:
  "stream_err (Body r) = Some err \<Longrightarrow> readValidateBody lib r (Some c) = Returned (Inl err)"
  by (simp add: readValidateBody_def)

lemma readValidateBody_RSA:
  "stream_err (Body r) = None \<Longrightarrow> PublicKey c = RSAPublicKey key \<Longrightarrow>
   readValidateBody lib r (Some c) =
     (if rsa_VerifyPKCS1v15 lib key (sha1_Sum lib (stream_data (Body r)))
           (base64_DecodeString lib (Header_Get (Header r) ''Signature''))
      then Returned (Inr (stream_data (Body r)))
      else Returned (Inl (GenericError ''signature match failed'')))"
  by (simp add: readValidateBody_def)

lemma readValidateBody_returns_body:
  "readValidateBody lib r cert = Returned (Inr body) \<Longrightarrow> body = stream_data (Body r)"
  by (auto simp: readValidateBody_def Let_def split: option.splits public_key.splits if_splits)

text \<open>
  C2. The verifier is not total on public-key types: for a certificate whose key is
  not an RSA key and a body that reads without error, the type assertion
  \<^verbatim>\<open>publicKey.(*rsa.PublicKey)\<close> fails and \<^verbatim>\<open>readValidateBody\<close> panics instead of
  returning an error.
\<close>

theorem readValidateBody_not_RSA:
  "stream_err (Body r) = None \<Longrightarrow> \<forall>key. PublicKey c \<noteq> RSAPublicKey key \<Longrightarrow>
   readValidateBody lib r (Some c) = Panic TypeAssertionFailed"
  by (cases "PublicKey c") (simp_all add: readValidateBody_def)

theorem readValidateBody_ecdsa_panics:
  "PublicKey ecdsa_Certificate = ECDSAPublicKey \<and>
   readValidateBody sample_lib (sample_http_Request sample_certURL ''aGk='' [104, 105])
     (Some ecdsa_Certificate) = Panic TypeAssertionFailed"
  using readValidateBody_not_RSA
    [of "sample_http_Request sample_certURL ''aGk='' [104, 105]" ecdsa_Certificate sample_lib]
  by (simp add: ecdsa_Certificate_def sample_http_Request_def)

section \<open>The validating handler\<close>

text \<open>
  The ways through the handler other than a signature error. After a certificate
  error it writes the 401 response and then panics in \<^verbatim>\<open>readValidateBody\<close>, which it
  calls with the nil certificate. When both stages succeed it calls the wrapped
  handler with the bytes of the body.
\<close>

lemma NewValidatingHandler_certificate_error:
  "readValidateCertificate lib r certReader now = Returned (Inl err) \<Longrightarrow>
   NewValidatingHandler lib certReader now r =
     ([HttpError (''Certificate validation failed: '' @ Error err) StatusUnauthorized],
      Panic NilDereference)"
  by (simp add: NewValidatingHandler_def readValidateBody_nil_cert)

lemma NewValidatingHandler_certificate_panic:
  "readValidateCertificate lib r certReader now = Panic p \<Longrightarrow>
   NewValidatingHandler lib certReader now r = ([], Panic p)"
  by (simp add: NewValidatingHandler_def)

lemma NewValidatingHandler_signature_panic:
  "readValidateCertificate lib r certReader now = Returned (Inr cert) \<Longrightarrow>
   readValidateBody lib r (Some cert) = Panic p \<Longrightarrow>
   NewValidatingHandler lib certReader now r = ([], Panic p)"
  by (simp add: NewValidatingHandler_def)

lemma NewValidatingHandler_accepts:
  "readValidateCertificate lib r certReader now = Returned (Inr cert) \<Longrightarrow>
   readValidateBody lib r (Some cert) = Returned (Inr body) \<Longrightarrow>
   NewValidatingHandler lib certReader now r = ([ServeHTTP (Some body)], Returned ())"
  by (simp add: NewValidatingHandler_def)

text \<open>
  C1. A request that fails signature verification is not kept from the wrapped
  handler: whenever the certificate is accepted and \<^verbatim>\<open>readValidateBody\<close> returns an
  error, the handler writes the 401 response \<^verbatim>\<open>Signature validation failed: ...\<close>
  and then calls \<^verbatim>\<open>alexaHandler.ServeHTTP\<close>, with a nil reader as the request body.
\<close>

theorem NewValidatingHandler_signature_error:
  "readValidateCertificate lib r certReader now = Returned (Inr cert) \<Longrightarrow>
   readValidateBody lib r (Some cert) = Returned (Inl err) \<Longrightarrow>
   NewValidatingHandler lib certReader now r =
     ([HttpError (''Signature validation failed: '' @ Error err) StatusUnauthorized,
       ServeHTTP None],
      Returned ())"
  by (simp add: NewValidatingHandler_def)

theorem NewValidatingHandler_serves_after_signature_failure:
  "NewValidatingHandler sample_lib sample_certReader sample_now
       (sample_http_Request sample_certURL ''aGo='' [104, 105])
     = ([HttpError ''Signature validation failed: signature match failed'' 401, ServeHTTP None],
        Returned ())"
proof -
  let ?r = "sample_http_Request sample_certURL ''aGo='' [104, 105]"
  have c: "readValidateCertificate sample_lib ?r sample_certReader sample_now
             = Returned (Inr sample_Certificate)"
    by (simp add: readValidateCertificate_parsed
          [of sample_lib ?r sample_certReader sample_pem sample_der sample_Certificate,
           OF sample_reach]
        Unix_def sample_now_def)
      (simp add: sample_Certificate_def)
  have b: "readValidateBody sample_lib ?r (Some sample_Certificate)
             = Returned (Inl (GenericError ''signature match failed''))"
    by (simp add: readValidateBody_def sample_Certificate_def sample_http_Request_def
        sample_lib_def Header_Get_def)
  show ?thesis
    using NewValidatingHandler_signature_error [OF c b]
    by (simp add: StatusUnauthorized_def)
qed

section \<open>The application-binding check\<close>

lemma validateApplicationID_accepts_iff:
  "(validateApplicationID r a = Returned None) =
     (\<exists>s. Session r = Some s \<and> ApplicationID (Application s) \<noteq> [] \<and> ApplicationID (Application s) = a)"
  by (auto simp: validateApplicationID_def Let_def split: option.splits)

lemma validateApplicationID_missing:
  "Session r = Some s \<Longrightarrow> ApplicationID (Application s) = [] \<Longrightarrow>
   validateApplicationID r a = Returned (Some (ValidationError ''request applicationID missing''))"
  by (simp add: validateApplicationID_def)

lemma validateApplicationID_mismatch:
  "Session r = Some s \<Longrightarrow> ApplicationID (Application s) \<noteq> [] \<Longrightarrow> ApplicationID (Application s) \<noteq> a \<Longrightarrow>
   validateApplicationID r a =
     Returned (Some (ValidationError (''request applicationID mismatch: '' @ ApplicationID (Application s))))"
  by (simp add: validateApplicationID_def)

text \<open>
  C7. The application-binding check returns the nil error exactly when the envelope
  has a session whose application identity is non-empty and equal to the expected
  one. An empty identity is rejected with the message \<^verbatim>\<open>request applicationID missing\<close>,
  a non-empty mismatched one with \<^verbatim>\<open>request applicationID mismatch: \<close> followed by
  the identity; both are \<open>ValidationError\<close>s and the two results always differ.
\<close>

theorem validateApplicationID_binding:
  "((validateApplicationID r a = Returned None) =
      (\<exists>s. Session r = Some s \<and> ApplicationID (Application s) \<noteq> []
           \<and> ApplicationID (Application s) = a))
   \<and> (\<forall>r1 r2 s1 s2.
        Session r1 = Some s1 \<and> ApplicationID (Application s1) = [] \<and>
        Session r2 = Some s2 \<and> ApplicationID (Application s2) \<noteq> [] \<and>
        ApplicationID (Application s2) \<noteq> a \<longrightarrow>
          validateApplicationID r1 a =
            Returned (Some (ValidationError ''request applicationID missing'')) \<and>
          validateApplicationID r2 a =
            Returned (Some (ValidationError
              (''request applicationID mismatch: '' @ ApplicationID (Application s2)))) \<and>
          validateApplicationID r1 a \<noteq> validateApplicationID r2 a)"
proof (intro conjI allI impI)
  show "(validateApplicationID r a = Returned None) =
      (\<exists>s. Session r = Some s \<and> ApplicationID (Application s) \<noteq> []
           \<and> ApplicationID (Application s) = a)"
    by (rule validateApplicationID_accepts_iff)
next
  fix r1 r2 :: RequestEnvelope and s1 s2 :: Session
  assume h: "Session r1 = Some s1 \<and> ApplicationID (Application s1) = [] \<and>
        Session r2 = Some s2 \<and> ApplicationID (Application s2) \<noteq> [] \<and>
        ApplicationID (Application s2) \<noteq> a"
  show m1: "validateApplicationID r1 a =
            Returned (Some (ValidationError ''request applicationID missing''))"
    using h by (simp add: validateApplicationID_missing)
  show m2: "validateApplicationID r2 a =
            Returned (Some (ValidationError
              (''request applicationID mismatch: '' @ ApplicationID (Application s2))))"
    using h by (simp add: validateApplicationID_mismatch)
  show "validateApplicationID r1 a \<noteq> validateApplicationID r2 a"
    unfolding m1 m2 by simp
qed

theorem validateApplicationID_binding_witness:
  "validateApplicationID (sample_envelope ''amzn1.ask.skill.1'' ''2017-07-14T02:40:00Z'') ''amzn1.ask.skill.1'' = Returned None
   \<and> validateApplicationID (sample_envelope [] ''2017-07-14T02:40:00Z'') ''amzn1.ask.skill.1''
       = Returned (Some (ValidationError ''request applicationID missing''))
   \<and> validateApplicationID (sample_envelope ''amzn1.ask.skill.2'' ''2017-07-14T02:40:00Z'') ''amzn1.ask.skill.1''
       = Returned (Some (ValidationError ''request applicationID mismatch: amzn1.ask.skill.2''))
   \<and> validateApplicationID (sample_envelope [] ''2017-07-14T02:40:00Z'') ''amzn1.ask.skill.1''
       \<noteq> validateApplicationID (sample_envelope ''amzn1.ask.skill.2'' ''2017-07-14T02:40:00Z'') ''amzn1.ask.skill.1''"
  using validateApplicationID_binding
    [of "sample_envelope ''amzn1.ask.skill.1'' ''2017-07-14T02:40:00Z''" "''amzn1.ask.skill.1''",
     THEN conjunct2, rule_format,
     of "sample_envelope [] ''2017-07-14T02:40:00Z''" "sample_Session []"
        "sample_envelope ''amzn1.ask.skill.2'' ''2017-07-14T02:40:00Z''" "sample_Session ''amzn1.ask.skill.2''"]
    validateApplicationID_binding
    [of "sample_envelope ''amzn1.ask.skill.1'' ''2017-07-14T02:40:00Z''" "''amzn1.ask.skill.1''",
     THEN conjunct1]
  by (simp add: sample_envelope_def sample_Session_def)

section \<open>The timestamp check\<close>







section \<open>The strict verification layer as a decorator\<close>

lemma validateApplicationID_nil_Session:
  "Session r = None \<Longrightarrow> validateApplicationID r a = Panic NilDereference"
  by (simp add: validateApplicationID_def)

lemma validateApplicationID_error_is_ValidationError:
  "validateApplicationID r a = Returned (Some err) \<Longrightarrow> \<exists>m. err = ValidationError m"
  by (auto simp: validateApplicationID_def Let_def split: option.splits if_splits)

lemma validateTimestamp_error_is_ValidationError:
  "validateTimestamp lib r now d = Returned (Some err) \<Longrightarrow> \<exists>m. err = ValidationError m"
  by (auto simp: validateTimestamp_def Let_def split: option.splits sum.splits if_splits)

lemma sample_validateTimestamp:
  "validateTimestamp sample_lib (sample_envelope a ''2017-07-14T02:40:00Z'') sample_now 150 = Returned None"
  by (simp add: validateTimestamp_def sample_lib_def sample_envelope_def sample_Request_def
      sample_now_def time_Sub_def Duration_Seconds_def minDuration_def maxDuration_def)

text \<open>
  C9. \<^verbatim>\<open>StrictVerificationApp.Handle\<close> decorates the wrapped \<^verbatim>\<open>App\<close>: when the
  application-binding check and the timestamp check both return nil, it calls the
  wrapped \<^verbatim>\<open>Handle\<close> once, on the same context and envelope, and its result is that
  call's result. When the first check returns an error, or the first passes and the
  second returns an error, it returns \<^verbatim>\<open>(nil, err)\<close> with that error, a
  \<open>ValidationError\<close>, and makes no call to the wrapped \<^verbatim>\<open>Handle\<close>.
\<close>

theorem Handle_decorates:
  "(validateApplicationID r (App_ApplicationID (App s)) = Returned None \<and>
    validateTimestamp lib r now 150 = Returned None \<longrightarrow>
      StrictVerificationApp_Handle lib App_Handle now s ctx r
        = ([(ctx, r)], App_Handle (App s) ctx r))
   \<and> (\<forall>err. validateApplicationID r (App_ApplicationID (App s)) = Returned (Some err) \<longrightarrow>
         StrictVerificationApp_Handle lib App_Handle now s ctx r = ([], Returned (None, Some err))
         \<and> (\<exists>m. err = ValidationError m))
   \<and> (\<forall>err. validateApplicationID r (App_ApplicationID (App s)) = Returned None \<and>
         validateTimestamp lib r now 150 = Returned (Some err) \<longrightarrow>
         StrictVerificationApp_Handle lib App_Handle now s ctx r = ([], Returned (None, Some err))
         \<and> (\<exists>m. err = ValidationError m))"
proof (intro conjI allI impI)
  assume "validateApplicationID r (App_ApplicationID (App s)) = Returned None \<and>
    validateTimestamp lib r now 150 = Returned None"
  then show "StrictVerificationApp_Handle lib App_Handle now s ctx r
        = ([(ctx, r)], App_Handle (App s) ctx r)"
    by (simp add: StrictVerificationApp_Handle_def)
next
  fix err
  assume h: "validateApplicationID r (App_ApplicationID (App s)) = Returned (Some err)"
  then show "StrictVerificationApp_Handle lib App_Handle now s ctx r = ([], Returned (None, Some err))"
    by (simp add: StrictVerificationApp_Handle_def)
  from h show "\<exists>m. err = ValidationError m"
    by (rule validateApplicationID_error_is_ValidationError)
next
  fix err
  assume h: "validateApplicationID r (App_ApplicationID (App s)) = Returned None \<and>
         validateTimestamp lib r now 150 = Returned (Some err)"
  then show "StrictVerificationApp_Handle lib App_Handle now s ctx r = ([], Returned (None, Some err))"
    by (simp add: StrictVerificationApp_Handle_def)
  from h show "\<exists>m. err = ValidationError m"
    by (blast dest: validateTimestamp_error_is_ValidationError)
qed

theorem Handle_decorates_witness:
  "StrictVerificationApp_Handle sample_lib sample_App_Handle sample_now \<lparr>App = sample_App\<rparr> ()
       (sample_envelope ''amzn1.ask.skill.1'' ''2017-07-14T02:40:00Z'')
     = ([((), sample_envelope ''amzn1.ask.skill.1'' ''2017-07-14T02:40:00Z'')],
        sample_App_Handle sample_App () (sample_envelope ''amzn1.ask.skill.1'' ''2017-07-14T02:40:00Z''))
   \<and> StrictVerificationApp_Handle sample_lib sample_App_Handle sample_now \<lparr>App = sample_App\<rparr> ()
       (sample_envelope ''amzn1.ask.skill.2'' ''2017-07-14T02:40:00Z'')
     = ([], Returned (None, Some (ValidationError ''request applicationID mismatch: amzn1.ask.skill.2'')))
   \<and> StrictVerificationApp_Handle sample_lib sample_App_Handle sample_now \<lparr>App = sample_App\<rparr> ()
       (sample_envelope ''amzn1.ask.skill.1'' ''yesterday'')
     = ([], Returned (None, Some (ValidationError ''invalid timestamp yesterday: parsing time yesterday'')))"
proof -
  let ?s = "\<lparr>App = sample_App\<rparr>"
  have a1: "validateApplicationID (sample_envelope ''amzn1.ask.skill.1'' ts) (App_ApplicationID (App ?s))
              = Returned None" for ts
    by (simp add: validateApplicationID_def sample_envelope_def sample_Session_def sample_App_def)
  have a2: "validateApplicationID (sample_envelope ''amzn1.ask.skill.2'' ''2017-07-14T02:40:00Z'')
              (App_ApplicationID (App ?s))
              = Returned (Some (ValidationError ''request applicationID mismatch: amzn1.ask.skill.2''))"
    by (simp add: validateApplicationID_def sample_envelope_def sample_Session_def sample_App_def)
  have t1: "validateTimestamp sample_lib (sample_envelope ''amzn1.ask.skill.1'' ''2017-07-14T02:40:00Z'')
              sample_now 150 = Returned None"
    by (rule sample_validateTimestamp)
  have t3: "validateTimestamp sample_lib (sample_envelope ''amzn1.ask.skill.1'' ''yesterday'')
              sample_now 150
              = Returned (Some (ValidationError ''invalid timestamp yesterday: parsing time yesterday''))"
    by (simp add: validateTimestamp_def sample_lib_def sample_envelope_def sample_Request_def)
  note d = Handle_decorates [where lib = sample_lib and App_Handle = sample_App_Handle
      and now = sample_now and s = ?s and ctx = "()"]
  from d [of "sample_envelope ''amzn1.ask.skill.1'' ''2017-07-14T02:40:00Z''"] a1 t1
  have "StrictVerificationApp_Handle sample_lib sample_App_Handle sample_now ?s ()
       (sample_envelope ''amzn1.ask.skill.1'' ''2017-07-14T02:40:00Z'')
     = ([((), sample_envelope ''amzn1.ask.skill.1'' ''2017-07-14T02:40:00Z'')],
        sample_App_Handle sample_App () (sample_envelope ''amzn1.ask.skill.1'' ''2017-07-14T02:40:00Z''))"
    by simp
  moreover from d [of "sample_envelope ''amzn1.ask.skill.2'' ''2017-07-14T02:40:00Z''"] a2
  have "StrictVerificationApp_Handle sample_lib sample_App_Handle sample_now ?s ()
       (sample_envelope ''amzn1.ask.skill.2'' ''2017-07-14T02:40:00Z'')
     = ([], Returned (None, Some (ValidationError ''request applicationID mismatch: amzn1.ask.skill.2'')))"
    by blast
  moreover from d [of "sample_envelope ''amzn1.ask.skill.1'' ''yesterday''"] a1 t3
  have "StrictVerificationApp_Handle sample_lib sample_App_Handle sample_now ?s ()
       (sample_envelope ''amzn1.ask.skill.1'' ''yesterday'')
     = ([], Returned (None, Some (ValidationError ''invalid timestamp yesterday: parsing time yesterday'')))"
    by blast
  ultimately show ?thesis by blast
qed

text \<open>
  C10. \<^verbatim>\<open>StrictVerificationApp.Handle\<close> is not total on envelopes: when the
  \<^verbatim>\<open>Session\<close> pointer of the envelope is nil, \<^verbatim>\<open>validateApplicationID\<close> reads
  \<^verbatim>\<open>r.Session.Application\<close> through it and panics, so \<^verbatim>\<open>Handle\<close> panics before
  any check returns and before the wrapped \<^verbatim>\<open>Handle\<close> is called.
\<close>

theorem Handle_nil_Session_panics:
  "Session r = None \<Longrightarrow>
     validateApplicationID r (App_ApplicationID (App s)) = Panic NilDereference \<and>
     StrictVerificationApp_Handle lib App_Handle now s ctx r = ([], Panic NilDereference)"
  by (simp add: StrictVerificationApp_Handle_def validateApplicationID_nil_Session)

theorem Handle_nil_Session_panics_witness:
  "Session sample_audio_envelope = None \<and>
   StrictVerificationApp_Handle sample_lib sample_App_Handle sample_now \<lparr>App = sample_App\<rparr> ()
     sample_audio_envelope = ([], Panic NilDereference)"
  using Handle_nil_Session_panics [of sample_audio_envelope "\<lparr>App = sample_App\<rparr>" sample_lib sample_App_Handle sample_now "()"]
  by (simp add: sample_audio_envelope_def)

end
